theory Spec2Isabelle
  imports Main "HOL-Library.Word"
begin

section \<open>The SoundWire bus type: matching, modalias, probe, remove, registration\<close>

text \<open>
  A shallow embedding of \<^verbatim>\<open>soundwire/bus_type.c\<close>. Structs are records, pointers that the
  code tests against NULL are options, function pointers are HOL functions, and every
  call that leaves the file (power domain, driver callbacks, completion) is logged in a
  trace so that the order of the steps can be stated.
\<close>

subsection \<open>Constants and faults\<close>

type_synonym u16 = "16 word"
type_synonym u32 = "32 word"

text \<open>The error numbers of the kernel's \<^verbatim>\<open>errno-base.h\<close>.\<close>

definition ENODEV :: int where "ENODEV = 19"
definition ENOMEM :: int where "ENOMEM = 12"
definition EINVAL :: int where "EINVAL = 22"

text \<open>
  What the C does where it has no defined result: a read beyond the last entry of an
  identity table that has no sentinel, a call through a NULL function pointer, and
  \<^verbatim>\<open>container_of\<close> applied to a driver of the other kind.
\<close>

datatype fault = OutOfBounds | NullDeref | BadCast

subsection \<open>Data model\<close>

text \<open>
  Modelled from the spec: the struct declarations of \<^verbatim>\<open>sdw.h\<close>, \<^verbatim>\<open>sdw_type.h\<close> and
  \<^verbatim>\<open>bus.h\<close> are not among the sources. Each record holds the fields that
  \<^verbatim>\<open>bus_type.c\<close> and \<^verbatim>\<open>master.c\<close> read or write, under the names used there. The
  widths are those of the data model of the specification (16-bit manufacturer and part
  ids) and, for the two timeouts, the \<^verbatim>\<open>u32\<close> that \<^verbatim>\<open>max_t\<close> casts them to. Return codes
  are C \<^verbatim>\<open>int\<close>s on which no arithmetic is done; they are integers here.
\<close>

text \<open>\<^verbatim>\<open>struct sdw_device_id\<close>, an entry of a driver's identity table.\<close>

record sdw_device_id =
  mfg_id :: u16
  part_id :: u16

text \<open>\<^verbatim>\<open>struct sdw_slave_id\<close>, the identity read from the peripheral.\<close>

record sdw_slave_id =
  mfg_id :: u16
  part_id :: u16

record sdw_slave_prop =
  clk_stop_timeout :: u32

record sdw_bus =
  clk_stop_timeout :: u32

text \<open>
  \<^verbatim>\<open>struct sdw_slave_ops\<close>: \<^verbatim>\<open>read_prop\<close> fills in the property bag of the peripheral, so
  it is a function on that bag; its return value is dropped by the caller.
\<close>

record sdw_slave_ops =
  read_prop :: "(sdw_slave_prop \<Rightarrow> int \<times> sdw_slave_prop) option"

text \<open>
  \<^verbatim>\<open>struct sdw_slave\<close>. \<open>bus\<close> is the bus instance behind \<^verbatim>\<open>slave->bus\<close>;
  \<open>probe_complete\<close> counts the releases of the completion. The fields \<^verbatim>\<open>id\<close> and
  \<^verbatim>\<open>prop\<close> are \<open>slave_id\<close> and \<open>slave_prop\<close> here: \<open>id\<close> is the identity function of HOL
  and \<open>prop\<close> a reserved word.
\<close>

record sdw_slave =
  slave_id :: sdw_slave_id
  bus :: sdw_bus
  ops :: "sdw_slave_ops option"
  slave_prop :: sdw_slave_prop
  probed :: bool
  probe_complete :: nat

record sdw_master_device =
  link_id :: int
  pdata :: nat
  master_name :: string
  probe_complete :: nat

text \<open>The wrappers that registration installs in \<^verbatim>\<open>struct device_driver\<close>.\<close>

datatype hook =
  Sdw_drv_probe | Sdw_drv_remove | Sdw_drv_shutdown
  | Sdw_master_drv_probe | Sdw_master_drv_remove | Sdw_master_drv_shutdown

datatype bus_type = Sdw_bus_type

record device_driver =
  name :: string
  bus :: "bus_type option"
  owner :: "nat option"
  probe :: "hook option"
  remove :: "hook option"
  shutdown :: "hook option"

record sdw_driver =
  name :: string
  probe :: "(sdw_slave \<Rightarrow> sdw_device_id \<Rightarrow> int \<times> sdw_slave) option"
  remove :: "(sdw_slave \<Rightarrow> int \<times> sdw_slave) option"
  shutdown :: "(sdw_slave \<Rightarrow> sdw_slave) option"
  id_table :: "sdw_device_id list option"
  ops :: "sdw_slave_ops option"
  driver :: device_driver

record sdw_master_driver =
  driver :: device_driver
  probe :: "(sdw_master_device \<Rightarrow> nat \<Rightarrow> int \<times> sdw_master_device) option"
  remove :: "(sdw_master_device \<Rightarrow> int \<times> sdw_master_device) option"
  shutdown :: "(sdw_master_device \<Rightarrow> sdw_master_device) option"

datatype device = Slave sdw_slave | Master sdw_master_device

datatype any_driver = SlaveDrv sdw_driver | MasterDrv sdw_master_driver

subsection \<open>Identity-table lookup\<close>

text \<open>
  \<^verbatim>\<open>sdw_get_device_id\<close>: the pointer \<^verbatim>\<open>id\<close> is the index \<open>i\<close> into the table. The loop
  reads entry \<open>i\<close>, stops with NULL at a zero \<open>mfg_id\<close>, returns the entry when both
  fields equal the peripheral's, and moves on otherwise. A non-NULL result is the index
  together with the entry it points to.
\<close>

function sdw_get_device_id_loop ::
  "sdw_slave \<Rightarrow> sdw_device_id list \<Rightarrow> nat \<Rightarrow> fault + (nat \<times> sdw_device_id) option" where
  "sdw_get_device_id_loop slave tbl i =
     (if length tbl \<le> i then Inl OutOfBounds
      else if sdw_device_id.mfg_id (tbl ! i) = 0 then Inr None
      else if sdw_slave_id.mfg_id (slave_id slave) = sdw_device_id.mfg_id (tbl ! i) \<and>
              sdw_slave_id.part_id (slave_id slave) = sdw_device_id.part_id (tbl ! i)
           then Inr (Some (i, tbl ! i))
      else sdw_get_device_id_loop slave tbl (Suc i))"
  by pat_completeness auto
termination
  by (relation "measure (\<lambda>(slave, tbl, i). length tbl - i)") auto

declare sdw_get_device_id_loop.simps [simp del]

definition sdw_get_device_id ::
  "sdw_slave \<Rightarrow> sdw_driver \<Rightarrow> fault + (nat \<times> sdw_device_id) option" where
  "sdw_get_device_id slave drv =
     (case id_table drv of
        None \<Rightarrow> Inr None
      | Some tbl \<Rightarrow> sdw_get_device_id_loop slave tbl 0)"

subsection \<open>String functions of the kernel library\<close>

text \<open>
  A C string is the list of its bytes in memory; the byte after the last one of the list
  is the terminating NUL, and a NUL inside the list ends the string there.
  \<open>strlen\<close> counts up to the first NUL. \<open>strncmp\<close> is the loop of \<^verbatim>\<open>lib/string.c\<close>:
  read one byte of each string, return \<open>-1\<close> or \<open>1\<close> where they differ, stop with \<open>0\<close>
  at a common NUL or when \<open>count\<close> bytes were equal.
\<close>

definition strlen :: "string \<Rightarrow> nat" where
  "strlen s = length (takeWhile (\<lambda>c. c \<noteq> CHR 0x00) s)"

fun byte_at :: "string \<Rightarrow> char" where
  "byte_at [] = CHR 0x00"
| "byte_at (c # cs) = c"

fun strncmp :: "string \<Rightarrow> string \<Rightarrow> nat \<Rightarrow> int" where
  "strncmp cs ct 0 = 0"
| "strncmp cs ct (Suc count) =
     (let c1 = byte_at cs; c2 = byte_at ct
      in if c1 \<noteq> c2 then (if (of_char c1 :: nat) < of_char c2 then - 1 else 1)
         else if c1 = CHR 0x00 then 0
         else strncmp (tl cs) (tl ct) count)"

subsection \<open>The match callback of the bus\<close>

text \<open>
  \<^verbatim>\<open>sdw_bus_match\<close> receives a \<^verbatim>\<open>struct device_driver\<close> embedded in a driver of either
  kind. The controller branch reads only \<^verbatim>\<open>mdrv->driver.name\<close>, which is the name of
  that embedded struct whatever the kind; the peripheral branch reads the identity table
  of the container, which a controller driver does not have.
\<close>

fun ddrv_name :: "any_driver \<Rightarrow> string" where
  "ddrv_name (SlaveDrv drv) = device_driver.name (sdw_driver.driver drv)"
| "ddrv_name (MasterDrv mdrv) = device_driver.name (sdw_master_driver.driver mdrv)"

fun sdw_bus_match :: "device \<Rightarrow> any_driver \<Rightarrow> fault + int" where
  "sdw_bus_match (Slave slave) (SlaveDrv drv) =
     (case sdw_get_device_id slave drv of
        Inl f \<Rightarrow> Inl f
      | Inr r \<Rightarrow> Inr (if r \<noteq> None then 1 else 0))"
| "sdw_bus_match (Slave slave) (MasterDrv mdrv) = Inl BadCast"
| "sdw_bus_match (Master md) ddrv =
     Inr (if strncmp (master_name md) (ddrv_name ddrv) (strlen (master_name md)) = 0
          then 1 else 0)"

subsection \<open>Modalias\<close>

text \<open>
  The conversion \<^verbatim>\<open>%04X\<close> of \<^verbatim>\<open>vsnprintf\<close>: the digits of the value in base 16, upper
  case, padded on the left with zeros to at least four characters. The 16-bit
  arguments are promoted to \<^verbatim>\<open>int\<close> without change of value, so the value printed is
  \<open>unat\<close> of the field.
\<close>

definition hex_digit :: "nat \<Rightarrow> char" where
  "hex_digit d = ''0123456789ABCDEF'' ! d"

fun hex_upper :: "nat \<Rightarrow> string" where
  "hex_upper n =
     (if n < 16 then [hex_digit n] else hex_upper (n div 16) @ [hex_digit (n mod 16)])"

declare hex_upper.simps [simp del]

definition fmt_04X :: "nat \<Rightarrow> string" where
  "fmt_04X n = replicate (4 - length (hex_upper n)) CHR ''0'' @ hex_upper n"

text \<open>
  \<^verbatim>\<open>snprintf\<close> with the formatted text \<open>s\<close>: at most \<open>sz - 1\<close> bytes are stored (and a
  NUL after them), nothing when the size \<open>sz\<close> is 0; the return value is the full length.
\<close>

definition snprintf :: "string \<Rightarrow> nat \<Rightarrow> string \<Rightarrow> int \<times> string" where
  "snprintf buf sz s = (int (length s), if sz = 0 then buf else take (sz - 1) s)"

definition sdw_slave_modalias :: "sdw_slave \<Rightarrow> string \<Rightarrow> nat \<Rightarrow> int \<times> string" where
  "sdw_slave_modalias slave buf sz =
     snprintf buf sz
       (''sdw:m'' @ fmt_04X (unat (sdw_slave_id.mfg_id (slave_id slave))) @ ''p'' @
        fmt_04X (unat (sdw_slave_id.part_id (slave_id slave))) @ [CHR 0x0A])"

definition sdw_master_modalias :: "sdw_master_device \<Rightarrow> string \<Rightarrow> nat \<Rightarrow> int \<times> string" where
  "sdw_master_modalias md buf sz =
     snprintf buf sz
       (''sdw:'' @ takeWhile (\<lambda>c. c \<noteq> CHR 0x00) (master_name md) @ [CHR 0x0A])"

text \<open>
  \<^verbatim>\<open>sdw_uevent\<close> formats into a local buffer of 32 bytes and hands
  \<^verbatim>\<open>MODALIAS=<buffer>\<close> to \<^verbatim>\<open>add_uevent_var\<close>, which is a parameter here.
\<close>

definition sdw_uevent :: "(string \<Rightarrow> 'env \<Rightarrow> int \<times> 'env) \<Rightarrow> device \<Rightarrow> 'env \<Rightarrow> int \<times> 'env" where
  "sdw_uevent add_uevent_var d env =
     (let modalias = (case d of
                        Slave slave \<Rightarrow> snd (sdw_slave_modalias slave [] 32)
                      | Master md \<Rightarrow> snd (sdw_master_modalias md [] 32));
          (r, env') = add_uevent_var (''MODALIAS='' @ modalias) env
      in if r \<noteq> 0 then (- ENOMEM, env') else (0, env'))"

subsection \<open>The device with its surroundings\<close>

text \<open>
  The wrappers act on a device, on its power domain and on the driver's callbacks. A
  \<open>dev_world\<close> holds the device record, whether the power domain is attached (an
  attach call returned 0 and no detach followed), and the trace of the calls made so
  far. A callback receives the device record and returns it updated: it can write any
  field of the device, but neither the power domain nor the trace.
\<close>

datatype event =
  PmAttach | PmDetach | DrvProbe | DrvReadProp | DrvRemove | DrvShutdown | Complete

record 'd dev_world =
  dev :: 'd
  pm_attached :: bool
  trace :: "event list"

text \<open>
  \<^verbatim>\<open>dev_pm_domain_attach\<close> belongs to the power-management subsystem; the value \<open>r\<close>
  that it returns is a parameter.
\<close>

definition dev_pm_domain_attach :: "int \<Rightarrow> 'd dev_world \<Rightarrow> int \<times> 'd dev_world" where
  "dev_pm_domain_attach r w =
     (r, w\<lparr>pm_attached := (r = 0 \<or> pm_attached w), trace := trace w @ [PmAttach]\<rparr>)"

definition dev_pm_domain_detach :: "'d dev_world \<Rightarrow> 'd dev_world" where
  "dev_pm_domain_detach w = w\<lparr>pm_attached := False, trace := trace w @ [PmDetach]\<rparr>"

definition complete :: "sdw_slave dev_world \<Rightarrow> sdw_slave dev_world" where
  "complete w =
     w\<lparr>dev := (dev w)\<lparr>sdw_slave.probe_complete := Suc (sdw_slave.probe_complete (dev w))\<rparr>,
       trace := trace w @ [Complete]\<rparr>"

subsection \<open>Probe, remove and shutdown of a peripheral\<close>

text \<open>
  The step \<^verbatim>\<open>if (slave->ops && slave->ops->read_prop) slave->ops->read_prop(slave)\<close> of
  \<^verbatim>\<open>sdw_drv_probe\<close>.
\<close>

definition slave_read_prop :: "sdw_slave dev_world \<Rightarrow> sdw_slave dev_world" where
  "slave_read_prop w =
     (case sdw_slave.ops (dev w) of
        None \<Rightarrow> w
      | Some slave_ops \<Rightarrow>
          (case read_prop slave_ops of
             None \<Rightarrow> w
           | Some rp \<Rightarrow>
               w\<lparr>dev := (dev w)\<lparr>slave_prop := snd (rp (slave_prop (dev w)))\<rparr>,
                 trace := trace w @ [DrvReadProp]\<rparr>))"

text \<open>
  \<^verbatim>\<open>sdw_drv_probe\<close>. \<open>pm_ret\<close> is what the power domain answers to the attach call.
  The driver core calls the wrapper only for a registered driver, whose \<^verbatim>\<open>probe\<close> is
  not NULL; a call through a NULL \<^verbatim>\<open>probe\<close> is a fault.
\<close>

definition sdw_drv_probe ::
  "int \<Rightarrow> sdw_driver \<Rightarrow> sdw_slave dev_world \<Rightarrow> fault + (int \<times> sdw_slave dev_world)" where
  "sdw_drv_probe pm_ret drv w =
     (case sdw_get_device_id (dev w) drv of
        Inl f \<Rightarrow> Inl f
      | Inr None \<Rightarrow> Inr (- ENODEV, w)
      | Inr (Some (i, entry)) \<Rightarrow>
          (let w1 = w\<lparr>dev := (dev w)\<lparr>sdw_slave.ops := sdw_driver.ops drv\<rparr>\<rparr>;
               (ret, w2) = dev_pm_domain_attach pm_ret w1
           in if ret \<noteq> 0 then Inr (ret, w2)
              else
                (case sdw_driver.probe drv of
                   None \<Rightarrow> Inl NullDeref
                 | Some drv_probe \<Rightarrow>
                     (let (ret, slave) = drv_probe (dev w2) entry;
                          w3 = w2\<lparr>dev := slave, trace := trace w2 @ [DrvProbe]\<rparr>
                      in if ret \<noteq> 0 then Inr (ret, dev_pm_domain_detach w3)
                         else
                           (let w4 = slave_read_prop w3;
                                s4 = dev w4;
                                s5 = (if sdw_slave_prop.clk_stop_timeout (slave_prop s4) = 0
                                      then s4\<lparr>slave_prop := (slave_prop s4)
                                                \<lparr>sdw_slave_prop.clk_stop_timeout := 300\<rparr>\<rparr>
                                      else s4);
                                s6 = s5\<lparr>sdw_slave.bus := (sdw_slave.bus s5)
                                         \<lparr>sdw_bus.clk_stop_timeout :=
                                            max (sdw_bus.clk_stop_timeout (sdw_slave.bus s5))
                                                (sdw_slave_prop.clk_stop_timeout (slave_prop s5))\<rparr>\<rparr>;
                                s7 = s6\<lparr>probed := True\<rparr>
                            in Inr (0, complete (w4\<lparr>dev := s7\<rparr>)))))))"

definition sdw_drv_remove :: "sdw_driver \<Rightarrow> sdw_slave dev_world \<Rightarrow> int \<times> sdw_slave dev_world" where
  "sdw_drv_remove drv w =
     (let (ret, w1) =
            (case sdw_driver.remove drv of
               None \<Rightarrow> (0, w)
             | Some drv_remove \<Rightarrow>
                 (let (r, slave) = drv_remove (dev w)
                  in (r, w\<lparr>dev := slave, trace := trace w @ [DrvRemove]\<rparr>)))
      in (ret, dev_pm_domain_detach w1))"

definition sdw_drv_shutdown :: "sdw_driver \<Rightarrow> sdw_slave dev_world \<Rightarrow> sdw_slave dev_world" where
  "sdw_drv_shutdown drv w =
     (case sdw_driver.shutdown drv of
        None \<Rightarrow> w
      | Some drv_shutdown \<Rightarrow> w\<lparr>dev := drv_shutdown (dev w), trace := trace w @ [DrvShutdown]\<rparr>)"

subsection \<open>Probe, remove and shutdown of a controller\<close>

definition sdw_master_drv_probe ::
  "int \<Rightarrow> sdw_master_driver \<Rightarrow> sdw_master_device dev_world
     \<Rightarrow> fault + (int \<times> sdw_master_device dev_world)" where
  "sdw_master_drv_probe pm_ret mdrv w =
     (let (ret, w1) = dev_pm_domain_attach pm_ret w
      in if ret \<noteq> 0 then Inr (ret, w1)
         else
           (case sdw_master_driver.probe mdrv of
              None \<Rightarrow> Inl NullDeref
            | Some drv_probe \<Rightarrow>
                (let (ret, md) = drv_probe (dev w1) (pdata (dev w1));
                     w2 = w1\<lparr>dev := md, trace := trace w1 @ [DrvProbe]\<rparr>
                 in if ret \<noteq> 0 then Inr (ret, dev_pm_domain_detach w2)
                    else Inr (0, w2))))"

definition sdw_master_drv_remove ::
  "sdw_master_driver \<Rightarrow> sdw_master_device dev_world \<Rightarrow> int \<times> sdw_master_device dev_world" where
  "sdw_master_drv_remove mdrv w =
     (let (ret, w1) =
            (case sdw_master_driver.remove mdrv of
               None \<Rightarrow> (0, w)
             | Some drv_remove \<Rightarrow>
                 (let (r, md) = drv_remove (dev w)
                  in (r, w\<lparr>dev := md, trace := trace w @ [DrvRemove]\<rparr>)))
      in (ret, dev_pm_domain_detach w1))"

definition sdw_master_drv_shutdown ::
  "sdw_master_driver \<Rightarrow> sdw_master_device dev_world \<Rightarrow> sdw_master_device dev_world" where
  "sdw_master_drv_shutdown mdrv w =
     (case sdw_master_driver.shutdown mdrv of
        None \<Rightarrow> w
      | Some drv_shutdown \<Rightarrow> w\<lparr>dev := drv_shutdown (dev w), trace := trace w @ [DrvShutdown]\<rparr>)"

subsection \<open>Driver registration\<close>

text \<open>
  \<^verbatim>\<open>driver_register\<close> belongs to the driver core. Its return value \<open>r\<close> is a
  parameter, and the list is the log of the calls made to it.
\<close>

definition driver_register ::
  "int \<Rightarrow> device_driver \<Rightarrow> device_driver list \<Rightarrow> int \<times> device_driver list" where
  "driver_register r ddrv calls = (r, calls @ [ddrv])"

text \<open>
  \<^verbatim>\<open>__sdw_register_driver\<close> and \<^verbatim>\<open>__sdw_register_master_driver\<close> (a name cannot start
  with an underscore here). The result is the return value, the driver record as the
  function leaves it, and the log of \<^verbatim>\<open>driver_register\<close> calls.
\<close>

definition sdw_register_driver ::
  "int \<Rightarrow> sdw_driver \<Rightarrow> nat option \<Rightarrow> device_driver list
     \<Rightarrow> int \<times> sdw_driver \<times> device_driver list" where
  "sdw_register_driver reg_ret drv own calls =
     (let drv1 = drv\<lparr>sdw_driver.driver :=
                      (sdw_driver.driver drv)\<lparr>device_driver.bus := Some Sdw_bus_type\<rparr>\<rparr>
      in if sdw_driver.probe drv1 = None then (- EINVAL, drv1, calls)
         else
           (let d2 = (sdw_driver.driver drv1)
                       \<lparr>owner := own, device_driver.probe := Some Sdw_drv_probe\<rparr>;
                d3 = (if sdw_driver.remove drv1 \<noteq> None
                      then d2\<lparr>device_driver.remove := Some Sdw_drv_remove\<rparr> else d2);
                d4 = (if sdw_driver.shutdown drv1 \<noteq> None
                      then d3\<lparr>device_driver.shutdown := Some Sdw_drv_shutdown\<rparr> else d3);
                (r, calls') = driver_register reg_ret d4 calls
            in (r, drv1\<lparr>sdw_driver.driver := d4\<rparr>, calls')))"

definition sdw_register_master_driver ::
  "int \<Rightarrow> sdw_master_driver \<Rightarrow> nat option \<Rightarrow> device_driver list
     \<Rightarrow> int \<times> sdw_master_driver \<times> device_driver list" where
  "sdw_register_master_driver reg_ret mdrv own calls =
     (let mdrv1 = mdrv\<lparr>sdw_master_driver.driver :=
                        (sdw_master_driver.driver mdrv)\<lparr>device_driver.bus := Some Sdw_bus_type\<rparr>\<rparr>
      in if sdw_master_driver.probe mdrv1 = None then (- EINVAL, mdrv1, calls)
         else
           (let d2 = (sdw_master_driver.driver mdrv1)
                       \<lparr>owner := own, device_driver.probe := Some Sdw_master_drv_probe\<rparr>;
                d3 = (if sdw_master_driver.remove mdrv1 \<noteq> None
                      then d2\<lparr>device_driver.remove := Some Sdw_master_drv_remove\<rparr> else d2);
                d4 = (if sdw_master_driver.shutdown mdrv1 \<noteq> None
                      then d3\<lparr>device_driver.shutdown := Some Sdw_master_drv_shutdown\<rparr> else d3);
                (r, calls') = driver_register reg_ret d4 calls
            in (r, mdrv1\<lparr>sdw_master_driver.driver := d4\<rparr>, calls')))"

subsection \<open>Vocabulary of the specification\<close>

text \<open>
  The identity of a peripheral equals a table entry when both fields are equal; the
  entries of a table are those before the first entry with a zero manufacturer id.
\<close>

definition id_equal :: "sdw_slave \<Rightarrow> sdw_device_id \<Rightarrow> bool" where
  "id_equal slave e \<longleftrightarrow>
     sdw_slave_id.mfg_id (slave_id slave) = sdw_device_id.mfg_id e \<and>
     sdw_slave_id.part_id (slave_id slave) = sdw_device_id.part_id e"

definition table_entries :: "sdw_device_id list \<Rightarrow> sdw_device_id list" where
  "table_entries tbl = takeWhile (\<lambda>e. sdw_device_id.mfg_id e \<noteq> 0) tbl"

text \<open>The C string held by a list of bytes: the bytes before the first NUL.\<close>

definition c_str :: "string \<Rightarrow> string" where
  "c_str s = takeWhile (\<lambda>c. c \<noteq> CHR 0x00) s"

text \<open>The four upper-case hexadecimal digits of a 16-bit value.\<close>

definition hex4 :: "u16 \<Rightarrow> string" where
  "hex4 v = [hex_digit (unat v div 4096), hex_digit (unat v div 256 mod 16),
             hex_digit (unat v div 16 mod 16), hex_digit (unat v mod 16)]"

subsection \<open>Example devices and drivers\<close>

definition ex_slave :: sdw_slave where
  "ex_slave =
     \<lparr>slave_id = \<lparr>sdw_slave_id.mfg_id = 0x1234, sdw_slave_id.part_id = 0x5678\<rparr>,
      sdw_slave.bus = \<lparr>sdw_bus.clk_stop_timeout = 150\<rparr>,
      sdw_slave.ops = None,
      slave_prop = \<lparr>sdw_slave_prop.clk_stop_timeout = 0\<rparr>,
      probed = False,
      sdw_slave.probe_complete = 0\<rparr>"

definition ex_table :: "sdw_device_id list" where
  "ex_table =
     [\<lparr>sdw_device_id.mfg_id = 0x1234, sdw_device_id.part_id = 0x5678\<rparr>,
      \<lparr>sdw_device_id.mfg_id = 0, sdw_device_id.part_id = 0\<rparr>]"

definition ex_ddrv :: "string \<Rightarrow> device_driver" where
  "ex_ddrv n =
     \<lparr>device_driver.name = n, device_driver.bus = None, owner = None,
      device_driver.probe = None, device_driver.remove = None,
      device_driver.shutdown = None\<rparr>"

text \<open>A peripheral driver whose probe returns \<open>r\<close> and whose remove returns \<open>r'\<close>.\<close>

definition ex_drv :: "int \<Rightarrow> int \<Rightarrow> sdw_driver" where
  "ex_drv r r' =
     \<lparr>sdw_driver.name = ''codec'',
      sdw_driver.probe = Some (\<lambda>slave entry. (r, slave)),
      sdw_driver.remove = Some (\<lambda>slave. (r', slave)),
      sdw_driver.shutdown = None,
      id_table = Some ex_table,
      sdw_driver.ops = None,
      sdw_driver.driver = ex_ddrv ''codec''\<rparr>"

definition ex_md :: sdw_master_device where
  "ex_md = \<lparr>link_id = 0, pdata = 0, master_name = ''link-0'',
            sdw_master_device.probe_complete = 0\<rparr>"

text \<open>A controller driver whose probe returns \<open>r\<close> and whose remove returns \<open>r'\<close>.\<close>

definition ex_mdrv :: "int \<Rightarrow> int \<Rightarrow> sdw_master_driver" where
  "ex_mdrv r r' =
     \<lparr>sdw_master_driver.driver = ex_ddrv ''link-0-ctrl'',
      sdw_master_driver.probe = Some (\<lambda>md pd. (r, md)),
      sdw_master_driver.remove = Some (\<lambda>md. (r', md)),
      sdw_master_driver.shutdown = None\<rparr>"

definition ex_world :: "'d \<Rightarrow> 'd dev_world" where
  "ex_world d = \<lparr>dev = d, pm_attached = False, trace = []\<rparr>"

section \<open>Properties\<close>

subsection \<open>The identity-table scan\<close>

text \<open>
  The loop returns entry \<open>j\<close> exactly when \<open>j\<close> is in range, equals the peripheral's
  identity, and every entry from \<open>i\<close> up to \<open>j\<close> is neither a sentinel nor equal.
\<close>

lemma loop_Some_iff:
  "sdw_get_device_id_loop slave tbl i = Inr (Some (j, e)) \<longleftrightarrow>
     i \<le> j \<and> j < length tbl \<and> e = tbl ! j \<and> id_equal slave e \<and>
     sdw_device_id.mfg_id e \<noteq> 0 \<and>
     (\<forall>k. i \<le> k \<and> k < j \<longrightarrow> sdw_device_id.mfg_id (tbl ! k) \<noteq> 0 \<and> \<not> id_equal slave (tbl ! k))"
proof (induction slave tbl i rule: sdw_get_device_id_loop.induct)
  case (1 slave tbl i)
  let ?L = "\<lambda>i. sdw_get_device_id_loop slave tbl i = Inr (Some (j, e))"
  let ?R = "\<lambda>i. i \<le> j \<and> j < length tbl \<and> e = tbl ! j \<and> id_equal slave e \<and>
     sdw_device_id.mfg_id e \<noteq> 0 \<and>
     (\<forall>k. i \<le> k \<and> k < j \<longrightarrow> sdw_device_id.mfg_id (tbl ! k) \<noteq> 0 \<and> \<not> id_equal slave (tbl ! k))"
  show ?case
  proof (cases "length tbl \<le> i")
    case True
    then show ?thesis by (subst sdw_get_device_id_loop.simps) auto
  next
    case inb: False
    show ?thesis
    proof (cases "sdw_device_id.mfg_id (tbl ! i) = 0")
      case True
      have "\<not> ?R i"
      proof
        assume r: "?R i"
        then have "i = j \<or> i < j" by auto
        with r True show False by auto
      qed
      moreover from inb True have "\<not> ?L i"
        by (subst sdw_get_device_id_loop.simps) simp
      ultimately show ?thesis by blast
    next
      case nz: False
      show ?thesis
      proof (cases "id_equal slave (tbl ! i)")
        case True
        with inb nz have l: "?L i \<longleftrightarrow> j = i \<and> e = tbl ! i"
          by (subst sdw_get_device_id_loop.simps) (auto simp: id_equal_def)
        have "?R i \<longleftrightarrow> j = i \<and> e = tbl ! i"
        proof
          assume r: "?R i"
          then have "i = j \<or> i < j" by auto
          with r True show "j = i \<and> e = tbl ! i" by auto
        next
          assume "j = i \<and> e = tbl ! i"
          with inb nz True show "?R i" by auto
        qed
        with l show ?thesis by blast
      next
        case False
        with inb nz have "?L i \<longleftrightarrow> ?L (Suc i)"
          by (subst sdw_get_device_id_loop.simps) (auto simp: id_equal_def)
        also from inb nz False have "\<dots> \<longleftrightarrow> ?R (Suc i)"
          using 1 by (auto simp: id_equal_def)
        also have "\<dots> \<longleftrightarrow> ?R i"
        proof
          assume r: "?R (Suc i)"
          have "\<And>k. i \<le> k \<Longrightarrow> k = i \<or> Suc i \<le> k" by auto
          with r nz False show "?R i" by (metis Suc_leD)
        next
          assume r: "?R i"
          then have "i = j \<or> Suc i \<le> j" by auto
          with r False show "?R (Suc i)" by auto
        qed
        finally show ?thesis .
      qed
    qed
  qed
qed


lemma loop_None_iff:
  "sdw_get_device_id_loop slave tbl i = Inr None \<longleftrightarrow>
     (\<exists>j. i \<le> j \<and> j < length tbl \<and> sdw_device_id.mfg_id (tbl ! j) = 0 \<and>
       (\<forall>k. i \<le> k \<and> k < j \<longrightarrow>
          sdw_device_id.mfg_id (tbl ! k) \<noteq> 0 \<and> \<not> id_equal slave (tbl ! k)))"
proof (induction slave tbl i rule: sdw_get_device_id_loop.induct)
  case (1 slave tbl i)
  let ?L = "\<lambda>i. sdw_get_device_id_loop slave tbl i = Inr None"
  let ?Q = "\<lambda>i j. i \<le> j \<and> j < length tbl \<and> sdw_device_id.mfg_id (tbl ! j) = 0 \<and>
       (\<forall>k. i \<le> k \<and> k < j \<longrightarrow>
          sdw_device_id.mfg_id (tbl ! k) \<noteq> 0 \<and> \<not> id_equal slave (tbl ! k))"
  show ?case
  proof (cases "length tbl \<le> i")
    case True
    then show ?thesis by (subst sdw_get_device_id_loop.simps) auto
  next
    case inb: False
    show ?thesis
    proof (cases "sdw_device_id.mfg_id (tbl ! i) = 0")
      case True
      with inb True have "?Q i i" by auto
      then have "\<exists>j. ?Q i j" ..
      moreover from inb True have "?L i"
        by (subst sdw_get_device_id_loop.simps) simp
      ultimately show ?thesis by blast
    next
      case nz: False
      show ?thesis
      proof (cases "id_equal slave (tbl ! i)")
        case True
        have "\<not> (\<exists>j. ?Q i j)"
        proof
          assume "\<exists>j. ?Q i j"
          then obtain j where q: "?Q i j" ..
          then have "i = j \<or> i < j" by auto
          with q nz True show False by auto
        qed
        moreover from inb nz True have "\<not> ?L i"
          by (subst sdw_get_device_id_loop.simps) (auto simp: id_equal_def)
        ultimately show ?thesis by blast
      next
        case False
        with inb nz have "?L i \<longleftrightarrow> ?L (Suc i)"
          by (subst sdw_get_device_id_loop.simps) (auto simp: id_equal_def)
        also from inb nz False have "\<dots> \<longleftrightarrow> (\<exists>j. ?Q (Suc i) j)"
          using 1 by (auto simp: id_equal_def)
        also have "\<dots> \<longleftrightarrow> (\<exists>j. ?Q i j)"
        proof
          assume "\<exists>j. ?Q (Suc i) j"
          then obtain j where q: "?Q (Suc i) j" ..
          have "\<And>k. i \<le> k \<Longrightarrow> k = i \<or> Suc i \<le> k" by auto
          with q nz False have "?Q i j" by (metis Suc_leD)
          then show "\<exists>j. ?Q i j" ..
        next
          assume "\<exists>j. ?Q i j"
          then obtain j where q: "?Q i j" ..
          then have "i = j \<or> Suc i \<le> j" by auto
          with q nz have "?Q (Suc i) j" by auto
          then show "\<exists>j. ?Q (Suc i) j" ..
        qed
        finally show ?thesis .
      qed
    qed
  qed
qed

lemma table_entries_nth:
  "k < length (table_entries tbl) \<Longrightarrow>
     table_entries tbl ! k = tbl ! k \<and> sdw_device_id.mfg_id (tbl ! k) \<noteq> 0"
  unfolding table_entries_def
  using nth_mem [of k "takeWhile (\<lambda>e. sdw_device_id.mfg_id e \<noteq> 0) tbl"]
  by (auto simp: takeWhile_nth dest: set_takeWhileD)

lemma table_entries_length_le: "length (table_entries tbl) \<le> length tbl"
  unfolding table_entries_def by (rule length_takeWhile_le)

lemma table_entries_sentinel:
  "length (table_entries tbl) < length tbl \<Longrightarrow>
     sdw_device_id.mfg_id (tbl ! length (table_entries tbl)) = 0"
  unfolding table_entries_def
  using nth_length_takeWhile [of "\<lambda>e. sdw_device_id.mfg_id e \<noteq> 0" tbl] by simp

lemma table_entries_lessI:
  "j < length tbl \<Longrightarrow> \<forall>k\<le>j. sdw_device_id.mfg_id (tbl ! k) \<noteq> 0 \<Longrightarrow>
     j < length (table_entries tbl)"
  unfolding table_entries_def
  using length_takeWhile_less_P_nth [of "Suc j" "\<lambda>e. sdw_device_id.mfg_id e \<noteq> 0" tbl]
  by (simp add: less_Suc_eq_le)

lemma get_Some_iff:
  assumes "id_table drv = Some tbl"
  shows "sdw_get_device_id slave drv = Inr (Some (i, e)) \<longleftrightarrow>
     i < length (table_entries tbl) \<and> e = tbl ! i \<and> id_equal slave e \<and>
     (\<forall>j<i. \<not> id_equal slave (tbl ! j))"
proof
  assume "sdw_get_device_id slave drv = Inr (Some (i, e))"
  with assms have l: "i < length tbl" "e = tbl ! i" "id_equal slave e"
    "sdw_device_id.mfg_id e \<noteq> 0"
    "\<forall>k<i. sdw_device_id.mfg_id (tbl ! k) \<noteq> 0 \<and> \<not> id_equal slave (tbl ! k)"
    by (auto simp: sdw_get_device_id_def loop_Some_iff)
  then have "\<forall>k\<le>i. sdw_device_id.mfg_id (tbl ! k) \<noteq> 0"
    by (auto simp: le_less)
  with l show "i < length (table_entries tbl) \<and> e = tbl ! i \<and> id_equal slave e \<and>
     (\<forall>j<i. \<not> id_equal slave (tbl ! j))"
    by (simp add: table_entries_lessI)
next
  assume r: "i < length (table_entries tbl) \<and> e = tbl ! i \<and> id_equal slave e \<and>
     (\<forall>j<i. \<not> id_equal slave (tbl ! j))"
  then have "\<forall>k\<le>i. sdw_device_id.mfg_id (tbl ! k) \<noteq> 0"
    using table_entries_nth [of _ tbl] by (meson le_less_trans)
  with r assms show "sdw_get_device_id slave drv = Inr (Some (i, e))"
    using table_entries_length_le [of tbl]
    by (auto simp: sdw_get_device_id_def loop_Some_iff)
qed

lemma get_None_iff:
  assumes "id_table drv = Some tbl"
  shows "sdw_get_device_id slave drv = Inr None \<longleftrightarrow>
     length (table_entries tbl) < length tbl \<and>
     (\<forall>j<length (table_entries tbl). \<not> id_equal slave (tbl ! j))"
proof
  assume "sdw_get_device_id slave drv = Inr None"
  with assms obtain j where j: "j < length tbl" "sdw_device_id.mfg_id (tbl ! j) = 0"
    "\<forall>k<j. sdw_device_id.mfg_id (tbl ! k) \<noteq> 0 \<and> \<not> id_equal slave (tbl ! k)"
    by (auto simp: sdw_get_device_id_def loop_None_iff)
  have "length (table_entries tbl) = j"
  proof (rule antisym)
    show "length (table_entries tbl) \<le> j"
      using j(2) table_entries_nth [of j tbl] by (auto simp: not_less [symmetric])
    show "j \<le> length (table_entries tbl)"
    proof (cases j)
      case 0 then show ?thesis by simp
    next
      case (Suc m)
      with j have "m < length (table_entries tbl)"
        by (intro table_entries_lessI) auto
      with Suc show ?thesis by simp
    qed
  qed
  with j show "length (table_entries tbl) < length tbl \<and>
     (\<forall>j<length (table_entries tbl). \<not> id_equal slave (tbl ! j))" by auto
next
  assume r: "length (table_entries tbl) < length tbl \<and>
     (\<forall>j<length (table_entries tbl). \<not> id_equal slave (tbl ! j))"
  let ?n = "length (table_entries tbl)"
  from r have "?n < length tbl \<and> sdw_device_id.mfg_id (tbl ! ?n) = 0 \<and>
      (\<forall>k. 0 \<le> k \<and> k < ?n \<longrightarrow> sdw_device_id.mfg_id (tbl ! k) \<noteq> 0 \<and> \<not> id_equal slave (tbl ! k))"
    using table_entries_sentinel [of tbl] table_entries_nth [of _ tbl] by auto
  with assms show "sdw_get_device_id slave drv = Inr None"
    by (auto simp: sdw_get_device_id_def loop_None_iff)
qed


lemma table_entries_ex_iff:
  "(\<exists>e\<in>set (table_entries tbl). id_equal slave e) \<longleftrightarrow>
     (\<exists>i<length (table_entries tbl). id_equal slave (tbl ! i))"
proof
  assume "\<exists>e\<in>set (table_entries tbl). id_equal slave e"
  then obtain i where "i < length (table_entries tbl)" "id_equal slave (table_entries tbl ! i)"
    by (auto simp: in_set_conv_nth)
  then show "\<exists>i<length (table_entries tbl). id_equal slave (tbl ! i)"
    using table_entries_nth [of i tbl] by auto
next
  assume "\<exists>i<length (table_entries tbl). id_equal slave (tbl ! i)"
  then obtain i where i: "i < length (table_entries tbl)" "id_equal slave (tbl ! i)" by blast
  then have "table_entries tbl ! i \<in> set (table_entries tbl)" by simp
  with i show "\<exists>e\<in>set (table_entries tbl). id_equal slave e"
    using table_entries_nth [of i tbl] by auto
qed

lemma match_slave_iff:
  "sdw_bus_match (Slave slave) (SlaveDrv drv) = Inr 1 \<longleftrightarrow>
     (\<exists>i e. sdw_get_device_id slave drv = Inr (Some (i, e)))"
proof (cases "sdw_get_device_id slave drv")
  case (Inr r)
  then show ?thesis by (cases r) auto
qed simp

lemma match_slave_zero_iff:
  "sdw_bus_match (Slave slave) (SlaveDrv drv) = Inr 0 \<longleftrightarrow>
     sdw_get_device_id slave drv = Inr None"
proof (cases "sdw_get_device_id slave drv")
  case (Inr r)
  then show ?thesis by (cases r) auto
qed simp

text \<open>
  C1. For a peripheral and a driver with identity table \<open>tbl\<close>: the match callback
  returns 1 if and only if some entry before the zero-manufacturer sentinel has both
  fields equal to the peripheral's. The lookup returns entry \<open>i\<close> if and only if \<open>i\<close>
  lies before the sentinel, equals the peripheral's identity and no earlier entry does
  (the scan is in order and returns the first equal entry); it returns NULL if and only
  if the sentinel is reached with no equal entry before it, and then the match is 0.
\<close>

theorem sdw_bus_match_slave:
  assumes "id_table drv = Some tbl"
  shows "(sdw_bus_match (Slave slave) (SlaveDrv drv) = Inr 1 \<longleftrightarrow>
            (\<exists>e\<in>set (table_entries tbl). id_equal slave e)) \<and>
         (sdw_get_device_id slave drv = Inr (Some (i, e)) \<longleftrightarrow>
            i < length (table_entries tbl) \<and> e = tbl ! i \<and> id_equal slave e \<and>
            (\<forall>j<i. \<not> id_equal slave (tbl ! j))) \<and>
         (sdw_get_device_id slave drv = Inr None \<longleftrightarrow>
            length (table_entries tbl) < length tbl \<and>
            (\<forall>e\<in>set (table_entries tbl). \<not> id_equal slave e)) \<and>
         (sdw_bus_match (Slave slave) (SlaveDrv drv) = Inr 0 \<longleftrightarrow>
            sdw_get_device_id slave drv = Inr None)"
proof -
  let ?n = "length (table_entries tbl)"
  have "sdw_bus_match (Slave slave) (SlaveDrv drv) = Inr 1 \<longleftrightarrow>
      (\<exists>i. i < ?n \<and> id_equal slave (tbl ! i) \<and> (\<forall>j<i. \<not> id_equal slave (tbl ! j)))"
    by (simp only: match_slave_iff get_Some_iff [OF assms]) blast
  also have "\<dots> \<longleftrightarrow> (\<exists>i. i < ?n \<and> id_equal slave (tbl ! i))"
  proof
    assume "\<exists>i. i < ?n \<and> id_equal slave (tbl ! i)"
    then obtain i where "i < ?n \<and> id_equal slave (tbl ! i)"
      "\<forall>j<i. \<not> (j < ?n \<and> id_equal slave (tbl ! j))"
      using exists_least_iff [of "\<lambda>i. i < ?n \<and> id_equal slave (tbl ! i)"] by blast
    then have "i < ?n \<and> id_equal slave (tbl ! i) \<and> (\<forall>j<i. \<not> id_equal slave (tbl ! j))"
      by (meson less_trans)
    then show "\<exists>i. i < ?n \<and> id_equal slave (tbl ! i) \<and> (\<forall>j<i. \<not> id_equal slave (tbl ! j))" ..
  qed blast
  also have "\<dots> \<longleftrightarrow> (\<exists>e\<in>set (table_entries tbl). id_equal slave e)"
    by (simp add: table_entries_ex_iff)
  finally have a: "sdw_bus_match (Slave slave) (SlaveDrv drv) = Inr 1 \<longleftrightarrow>
      (\<exists>e\<in>set (table_entries tbl). id_equal slave e)" .
  have c: "sdw_get_device_id slave drv = Inr None \<longleftrightarrow>
      ?n < length tbl \<and> (\<forall>e\<in>set (table_entries tbl). \<not> id_equal slave e)"
    using table_entries_ex_iff [of tbl slave] by (auto simp: get_None_iff [OF assms])
  from a c show ?thesis
    by (simp only: get_Some_iff [OF assms] match_slave_zero_iff)
qed

theorem sdw_bus_match_slave_witness:
  "id_table (ex_drv 0 0) = Some ex_table \<and>
   sdw_bus_match (Slave ex_slave) (SlaveDrv (ex_drv 0 0)) = Inr 1 \<and>
   sdw_get_device_id ex_slave (ex_drv 0 0) = Inr (Some (0, ex_table ! 0))"
proof -
  have h: "id_table (ex_drv 0 0) = Some ex_table"
    by (simp add: ex_drv_def)
  show ?thesis
    using h sdw_bus_match_slave [OF h, of ex_slave 0 "ex_table ! 0"]
    by (simp add: table_entries_def id_equal_def ex_table_def ex_slave_def)
qed

subsection \<open>Probe of a device\<close>

text \<open>
  C2. When the driver's probe callback returns an error \<open>ret\<close>, the wrapper of either
  kind returns \<open>ret\<close> unchanged, and its last call is the detach of the power domain,
  which is left detached. The device is exactly as the callback returned it: after the
  callback the wrapper writes neither the \<open>probed\<close> flag nor the completion, and the
  trace holds no release of the completion. (A controller device has no \<open>probed\<close>
  flag.)
\<close>

theorem probe_driver_error:
  assumes "sdw_get_device_id (dev w) drv = Inr (Some (i, entry))"
    and "sdw_driver.probe drv = Some p"
    and "p ((dev w)\<lparr>sdw_slave.ops := sdw_driver.ops drv\<rparr>) entry = (ret, slave')"
    and "ret \<noteq> 0"
    and "sdw_master_driver.probe mdrv = Some mp"
    and "mp (dev mw) (pdata (dev mw)) = (mret, md')"
    and "mret \<noteq> 0"
  shows "sdw_drv_probe 0 drv w =
           Inr (ret, \<lparr>dev = slave', pm_attached = False,
                      trace = trace w @ [PmAttach, DrvProbe, PmDetach]\<rparr>) \<and>
         sdw_master_drv_probe 0 mdrv mw =
           Inr (mret, \<lparr>dev = md', pm_attached = False,
                       trace = trace mw @ [PmAttach, DrvProbe, PmDetach]\<rparr>)"
  using assms
  by (simp add: sdw_drv_probe_def sdw_master_drv_probe_def dev_pm_domain_attach_def
      dev_pm_domain_detach_def)

theorem probe_driver_error_witness:
  "sdw_get_device_id (dev (ex_world ex_slave)) (ex_drv (- 5) 0) = Inr (Some (0, ex_table ! 0)) \<and>
   (- 5 :: int) \<noteq> 0 \<and>
   sdw_drv_probe 0 (ex_drv (- 5) 0) (ex_world ex_slave) =
     Inr (- 5, \<lparr>dev = ex_slave, pm_attached = False,
                 trace = [PmAttach, DrvProbe, PmDetach]\<rparr>) \<and>
   probed ex_slave = False \<and> sdw_slave.probe_complete ex_slave = 0 \<and>
   sdw_master_drv_probe 0 (ex_mdrv (- 5) 0) (ex_world ex_md) =
     Inr (- 5, \<lparr>dev = ex_md, pm_attached = False,
                 trace = [PmAttach, DrvProbe, PmDetach]\<rparr>)"
proof -
  have h1: "sdw_get_device_id (dev (ex_world ex_slave)) (ex_drv (- 5) 0) =
              Inr (Some (0, ex_table ! 0))"
    by (simp add: sdw_get_device_id_def ex_world_def ex_drv_def ex_table_def ex_slave_def
        sdw_get_device_id_loop.simps)
  have h2: "sdw_driver.probe (ex_drv (- 5) 0) = Some (\<lambda>slave entry. (- 5, slave))"
    by (simp add: ex_drv_def)
  have h3: "(\<lambda>slave entry. (- 5 :: int, slave))
              ((dev (ex_world ex_slave))\<lparr>sdw_slave.ops := sdw_driver.ops (ex_drv (- 5) 0)\<rparr>)
              (ex_table ! 0) = (- 5, ex_slave)"
    by (simp add: ex_world_def ex_drv_def ex_slave_def)
  have h4: "(- 5 :: int) \<noteq> 0" by simp
  have h5: "sdw_master_driver.probe (ex_mdrv (- 5) 0) = Some (\<lambda>md pd. (- 5, md))"
    by (simp add: ex_mdrv_def)
  have h6: "(\<lambda>md pd. (- 5 :: int, md)) (dev (ex_world ex_md)) (pdata (dev (ex_world ex_md))) =
              (- 5, ex_md)"
    by (simp add: ex_world_def)
  show ?thesis
    using h1 probe_driver_error [OF h1 h2 h3 h4 h5 h6 h4]
    by (simp add: ex_world_def ex_slave_def)
qed

text \<open>
  The successful run of the peripheral wrapper, step by step: \<open>w4\<close> is the state after
  the optional \<^verbatim>\<open>read_prop\<close> call and \<open>t\<close> the timeout of the device after the default
  was applied.
\<close>

lemma slave_read_prop_frame:
  "pm_attached (slave_read_prop w) = pm_attached w \<and>
   probed (dev (slave_read_prop w)) = probed (dev w) \<and>
   sdw_slave.probe_complete (dev (slave_read_prop w)) = sdw_slave.probe_complete (dev w) \<and>
   sdw_slave.bus (dev (slave_read_prop w)) = sdw_slave.bus (dev w) \<and>
   (trace (slave_read_prop w) = trace w \<or> trace (slave_read_prop w) = trace w @ [DrvReadProp])"
  by (simp add: slave_read_prop_def split: option.splits)

lemma sdw_drv_probe_success:
  assumes "sdw_get_device_id (dev w) drv = Inr (Some (i, entry))"
    and "sdw_driver.probe drv = Some p"
    and "p ((dev w)\<lparr>sdw_slave.ops := sdw_driver.ops drv\<rparr>) entry = (0, slave')"
    and "w4 = slave_read_prop
                \<lparr>dev = slave', pm_attached = True, trace = trace w @ [PmAttach, DrvProbe]\<rparr>"
    and "t = (if sdw_slave_prop.clk_stop_timeout (slave_prop (dev w4)) = 0 then 300
              else sdw_slave_prop.clk_stop_timeout (slave_prop (dev w4)))"
  shows "sdw_drv_probe 0 drv w =
     Inr (0, \<lparr>dev = (dev w4)
                 \<lparr>sdw_slave.bus := (sdw_slave.bus (dev w4))
                    \<lparr>sdw_bus.clk_stop_timeout :=
                       max (sdw_bus.clk_stop_timeout (sdw_slave.bus (dev w4))) t\<rparr>,
                  slave_prop := (slave_prop (dev w4))\<lparr>sdw_slave_prop.clk_stop_timeout := t\<rparr>,
                  probed := True,
                  sdw_slave.probe_complete := Suc (sdw_slave.probe_complete (dev w4))\<rparr>,
               pm_attached = True,
               trace = trace w4 @ [Complete]\<rparr>)"
proof -
  have pm: "pm_attached w4 = True"
    using slave_read_prop_frame
      [of "\<lparr>dev = slave', pm_attached = True, trace = trace w @ [PmAttach, DrvProbe]\<rparr>"]
    by (simp add: assms(4))
  have "sdw_drv_probe 0 drv w = Inr (0, complete (w4\<lparr>dev :=
          (if sdw_slave_prop.clk_stop_timeout (slave_prop (dev w4)) = 0
           then (dev w4)\<lparr>slave_prop := (slave_prop (dev w4))\<lparr>sdw_slave_prop.clk_stop_timeout := 300\<rparr>\<rparr>
           else dev w4)
          \<lparr>sdw_slave.bus := (sdw_slave.bus (dev w4))
             \<lparr>sdw_bus.clk_stop_timeout :=
                max (sdw_bus.clk_stop_timeout (sdw_slave.bus (dev w4))) t\<rparr>,
           probed := True\<rparr>\<rparr>))"
    using assms(1-3)
    by (cases w) (simp add: sdw_drv_probe_def dev_pm_domain_attach_def Let_def assms(4,5))
  also have "\<dots> = Inr (0, \<lparr>dev = (dev w4)
                 \<lparr>sdw_slave.bus := (sdw_slave.bus (dev w4))
                    \<lparr>sdw_bus.clk_stop_timeout :=
                       max (sdw_bus.clk_stop_timeout (sdw_slave.bus (dev w4))) t\<rparr>,
                  slave_prop := (slave_prop (dev w4))\<lparr>sdw_slave_prop.clk_stop_timeout := t\<rparr>,
                  probed := True,
                  sdw_slave.probe_complete := Suc (sdw_slave.probe_complete (dev w4))\<rparr>,
               pm_attached = True,
               trace = trace w4 @ [Complete]\<rparr>)"
    using pm by (cases w4) (simp add: complete_def assms(5))
  finally show ?thesis .
qed

text \<open>
  C3, as the code has it. A peripheral probe that returns 0 has resolved the table
  entry, attached the power domain and called the driver's probe, which returned 0;
  only then is \<open>probed\<close> set and the completion released, exactly once and as the last
  call. A peripheral probe that returns an error releases nothing. The controller
  wrapper has a shorter sequence: it never releases the completion of the controller
  device; on success its calls are the attach and the driver's probe, and the device is
  as the driver's callback returned it.
\<close>

theorem probe_completion:
  assumes "sdw_drv_probe pm_ret drv w = Inr (r, w')"
    and "sdw_master_drv_probe pm_ret' mdrv mw = Inr (mr, mw')"
  shows "(r = 0 \<longrightarrow>
            (\<exists>i entry p slave'.
               sdw_get_device_id (dev w) drv = Inr (Some (i, entry)) \<and> pm_ret = 0 \<and>
               sdw_driver.probe drv = Some p \<and>
               p ((dev w)\<lparr>sdw_slave.ops := sdw_driver.ops drv\<rparr>) entry = (0, slave') \<and>
               probed (dev w') \<and>
               sdw_slave.probe_complete (dev w') = Suc (sdw_slave.probe_complete slave') \<and>
               take 2 (drop (length (trace w)) (trace w')) = [PmAttach, DrvProbe] \<and>
               last (trace w') = Complete \<and>
               count_list (drop (length (trace w)) (trace w')) Complete = 1)) \<and>
         (r \<noteq> 0 \<longrightarrow> Complete \<notin> set (drop (length (trace w)) (trace w'))) \<and>
         Complete \<notin> set (drop (length (trace mw)) (trace mw')) \<and>
         (mr = 0 \<longrightarrow>
            (\<exists>mp. sdw_master_driver.probe mdrv = Some mp \<and>
               mp (dev mw) (pdata (dev mw)) = (0, dev mw') \<and>
               trace mw' = trace mw @ [PmAttach, DrvProbe]))"
proof -
  have master: "Complete \<notin> set (drop (length (trace mw)) (trace mw')) \<and>
         (mr = 0 \<longrightarrow>
            (\<exists>mp. sdw_master_driver.probe mdrv = Some mp \<and>
               mp (dev mw) (pdata (dev mw)) = (0, dev mw') \<and>
               trace mw' = trace mw @ [PmAttach, DrvProbe]))"
    using assms(2)
    by (auto simp: sdw_master_drv_probe_def dev_pm_domain_attach_def dev_pm_domain_detach_def
        Let_def split: if_splits option.splits prod.splits)
  have slave: "(r = 0 \<longrightarrow>
            (\<exists>i entry p slave'.
               sdw_get_device_id (dev w) drv = Inr (Some (i, entry)) \<and> pm_ret = 0 \<and>
               sdw_driver.probe drv = Some p \<and>
               p ((dev w)\<lparr>sdw_slave.ops := sdw_driver.ops drv\<rparr>) entry = (0, slave') \<and>
               probed (dev w') \<and>
               sdw_slave.probe_complete (dev w') = Suc (sdw_slave.probe_complete slave') \<and>
               take 2 (drop (length (trace w)) (trace w')) = [PmAttach, DrvProbe] \<and>
               last (trace w') = Complete \<and>
               count_list (drop (length (trace w)) (trace w')) Complete = 1)) \<and>
         (r \<noteq> 0 \<longrightarrow> Complete \<notin> set (drop (length (trace w)) (trace w')))"
  proof (cases "sdw_get_device_id (dev w) drv")
    case (Inl f)
    with assms(1) show ?thesis by (simp add: sdw_drv_probe_def)
  next
    case (Inr found)
    show ?thesis
    proof (cases found)
      case None
      with Inr assms(1) show ?thesis by (auto simp: sdw_drv_probe_def ENODEV_def)
    next
      case (Some ie)
      obtain i entry where ie: "ie = (i, entry)" by (cases ie)
      note g = Inr [unfolded Some ie]
      show ?thesis
      proof (cases "pm_ret = 0")
        case False
        with g assms(1) show ?thesis
          by (auto simp: sdw_drv_probe_def dev_pm_domain_attach_def)
      next
        case pm: True
        show ?thesis
        proof (cases "sdw_driver.probe drv")
          case None
          with g pm assms(1) show ?thesis
            by (simp add: sdw_drv_probe_def dev_pm_domain_attach_def)
        next
          case (Some p)
          obtain ret slave' where
            p: "p ((dev w)\<lparr>sdw_slave.ops := sdw_driver.ops drv\<rparr>) entry = (ret, slave')"
            by (cases "p ((dev w)\<lparr>sdw_slave.ops := sdw_driver.ops drv\<rparr>) entry")
          show ?thesis
          proof (cases "ret = 0")
            case False
            with g pm Some p assms(1) show ?thesis
              by (auto simp: sdw_drv_probe_def dev_pm_domain_attach_def
                  dev_pm_domain_detach_def)
          next
            case True
            let ?w3 = "\<lparr>dev = slave', pm_attached = True,
                         trace = trace w @ [PmAttach, DrvProbe]\<rparr>"
            note fr = slave_read_prop_frame [of ?w3]
            from fr have tr: "trace (slave_read_prop ?w3) = trace w @ [PmAttach, DrvProbe] \<or>
                trace (slave_read_prop ?w3) = trace w @ [PmAttach, DrvProbe, DrvReadProp]"
              by auto
            from g Some p True pm assms(1)
            have r: "r = 0" and w': "w' =
               \<lparr>dev = (dev (slave_read_prop ?w3))
                 \<lparr>sdw_slave.bus := (sdw_slave.bus (dev (slave_read_prop ?w3)))
                    \<lparr>sdw_bus.clk_stop_timeout :=
                       max (sdw_bus.clk_stop_timeout (sdw_slave.bus (dev (slave_read_prop ?w3))))
                         (if sdw_slave_prop.clk_stop_timeout
                               (slave_prop (dev (slave_read_prop ?w3))) = 0 then 300
                          else sdw_slave_prop.clk_stop_timeout
                                 (slave_prop (dev (slave_read_prop ?w3))))\<rparr>,
                  slave_prop := (slave_prop (dev (slave_read_prop ?w3)))
                    \<lparr>sdw_slave_prop.clk_stop_timeout :=
                         (if sdw_slave_prop.clk_stop_timeout
                               (slave_prop (dev (slave_read_prop ?w3))) = 0 then 300
                          else sdw_slave_prop.clk_stop_timeout
                                 (slave_prop (dev (slave_read_prop ?w3))))\<rparr>,
                  probed := True,
                  sdw_slave.probe_complete :=
                    Suc (sdw_slave.probe_complete (dev (slave_read_prop ?w3)))\<rparr>,
               pm_attached = True,
               trace = trace (slave_read_prop ?w3) @ [Complete]\<rparr>"
              using sdw_drv_probe_success [OF g Some _ refl refl, of slave'] by simp_all
            from tr have t: "take 2 (drop (length (trace w)) (trace w')) = [PmAttach, DrvProbe] \<and>
               last (trace w') = Complete \<and>
               count_list (drop (length (trace w)) (trace w')) Complete = 1"
              by (auto simp: w')
            have "probed (dev w') \<and>
               sdw_slave.probe_complete (dev w') = Suc (sdw_slave.probe_complete slave')"
              using fr by (simp add: w')
            with t r g pm Some p True show ?thesis by auto
          qed
        qed
      qed
    qed
  qed
  from slave master show ?thesis by blast
qed

theorem probe_completion_witness:
  "sdw_drv_probe 0 (ex_drv 0 0) (ex_world ex_slave) =
     Inr (0, \<lparr>dev = ex_slave
                \<lparr>sdw_slave.bus := \<lparr>sdw_bus.clk_stop_timeout = 300\<rparr>,
                 slave_prop := \<lparr>sdw_slave_prop.clk_stop_timeout = 300\<rparr>,
                 probed := True, sdw_slave.probe_complete := 1\<rparr>,
              pm_attached = True, trace = [PmAttach, DrvProbe, Complete]\<rparr>) \<and>
   sdw_master_drv_probe 0 (ex_mdrv 0 0) (ex_world ex_md) =
     Inr (0, \<lparr>dev = ex_md, pm_attached = True, trace = [PmAttach, DrvProbe]\<rparr>) \<and>
   count_list (drop (length (trace (ex_world ex_slave))) [PmAttach, DrvProbe, Complete])
     Complete = 1 \<and>
   Complete \<notin> set (drop (length (trace (ex_world ex_md))) [PmAttach, DrvProbe])"
proof -
  have h1: "sdw_drv_probe 0 (ex_drv 0 0) (ex_world ex_slave) =
     Inr (0, \<lparr>dev = ex_slave
                \<lparr>sdw_slave.bus := \<lparr>sdw_bus.clk_stop_timeout = 300\<rparr>,
                 slave_prop := \<lparr>sdw_slave_prop.clk_stop_timeout = 300\<rparr>,
                 probed := True, sdw_slave.probe_complete := 1\<rparr>,
              pm_attached = True, trace = [PmAttach, DrvProbe, Complete]\<rparr>)"
    by (simp add: sdw_drv_probe_def sdw_get_device_id_def sdw_get_device_id_loop.simps
        dev_pm_domain_attach_def slave_read_prop_def complete_def Let_def
        ex_drv_def ex_world_def ex_slave_def ex_table_def)
  have h2: "sdw_master_drv_probe 0 (ex_mdrv 0 0) (ex_world ex_md) =
     Inr (0, \<lparr>dev = ex_md, pm_attached = True, trace = [PmAttach, DrvProbe]\<rparr>)"
    by (simp add: sdw_master_drv_probe_def dev_pm_domain_attach_def ex_mdrv_def ex_world_def)
  show ?thesis
    using h1 h2 probe_completion [OF h1 h2] by auto
qed

text \<open>
  A successful controller probe after which the completion of the device has never been
  released.
\<close>

theorem master_probe_no_completion:
  "sdw_master_drv_probe 0 (ex_mdrv 0 0) (ex_world ex_md) =
     Inr (0, \<lparr>dev = ex_md, pm_attached = True, trace = [PmAttach, DrvProbe]\<rparr>) \<and>
   sdw_master_device.probe_complete ex_md = 0"
  by (simp add: sdw_master_drv_probe_def dev_pm_domain_attach_def ex_mdrv_def ex_world_def
      ex_md_def)

subsection \<open>Modalias\<close>

lemma hex_digit_0: "hex_digit 0 = CHR ''0''"
  by (simp add: hex_digit_def)

lemma fmt_04X_u16:
  assumes "n < 65536"
  shows "fmt_04X n = [hex_digit (n div 4096), hex_digit (n div 256 mod 16),
             hex_digit (n div 16 mod 16), hex_digit (n mod 16)]"
proof -
  have d2: "n div 16 div 16 = n div 256" and d3: "n div 256 div 16 = n div 4096"
    by (simp_all add: div_mult2_eq)
  consider "n < 16" | "16 \<le> n" "n < 256" | "256 \<le> n" "n < 4096" | "4096 \<le> n"
    by linarith
  then show ?thesis
  proof cases
    case 1
    then show ?thesis
      by (simp add: fmt_04X_def hex_upper.simps [of n] hex_digit_0 numeral_3_eq_3)
  next
    case 2
    then have "n div 16 < 16" by simp
    with 2 show ?thesis
      by (simp add: fmt_04X_def hex_upper.simps [of n] hex_upper.simps [of "n div 16"]
          hex_digit_0 numeral_2_eq_2)
  next
    case 3
    then have "n div 256 < 16" "\<not> n div 16 < 16" by simp_all
    with 3 show ?thesis
      by (simp add: fmt_04X_def hex_upper.simps [of n] hex_upper.simps [of "n div 16"]
          hex_upper.simps [of "n div 256"] hex_digit_0 d2)
  next
    case 4
    with assms have "n div 4096 < 16" "\<not> n div 16 < 16" "\<not> n div 256 < 16"
      by simp_all
    with 4 show ?thesis
      by (simp add: fmt_04X_def hex_upper.simps [of n] hex_upper.simps [of "n div 16"]
          hex_upper.simps [of "n div 256"] hex_upper.simps [of "n div 4096"] d2 d3)
  qed
qed

lemma fmt_04X_word: "fmt_04X (unat (v :: u16)) = hex4 v"
proof -
  have "unat v < 65536" using unsigned_less [of v, where ?'a = nat] by simp
  then show ?thesis by (simp add: fmt_04X_u16 hex4_def)
qed

text \<open>
  C4, as the code has it. Into a buffer of at least 16 bytes (\<^verbatim>\<open>sdw_uevent\<close> passes 32)
  the formatter writes \<^verbatim>\<open>sdw:m\<close>, the manufacturer id as four upper-case hexadecimal
  digits, \<^verbatim>\<open>p\<close>, the part id as four upper-case hexadecimal digits, and a newline
  character; it returns 15.
\<close>

theorem sdw_slave_modalias_format:
  assumes "16 \<le> sz"
  shows "sdw_slave_modalias slave buf sz =
           (15, ''sdw:m'' @ hex4 (sdw_slave_id.mfg_id (slave_id slave)) @ ''p'' @
                hex4 (sdw_slave_id.part_id (slave_id slave)) @ [CHR 0x0A])"
  using assms
  by (simp add: sdw_slave_modalias_def snprintf_def fmt_04X_word) (simp add: hex4_def)

theorem sdw_slave_modalias_format_witness:
  "(16::nat) \<le> 32 \<and> sdw_slave_modalias ex_slave [] 32 = (15, ''sdw:m1234p5678\<newline>'')"
proof -
  have h: "(16::nat) \<le> 32" by simp
  show ?thesis
    using h sdw_slave_modalias_format [OF h, of ex_slave "[]"]
    by (simp add: ex_slave_def hex4_def hex_digit_def)
qed

text \<open>
  The device 0x1234/0x5678: the formatted text is not \<^verbatim>\<open>sdw:m1234p5678\<close>, it is one
  character longer.
\<close>

theorem sdw_slave_modalias_newline:
  "snd (sdw_slave_modalias ex_slave [] 32) \<noteq> ''sdw:m1234p5678''"
  by (simp add: sdw_slave_modalias_def snprintf_def fmt_04X_word) (simp add: hex4_def)

subsection \<open>Failures before the driver is called, timeouts\<close>

text \<open>
  C5. When the attach to the power domain fails with \<open>pm_ret\<close>, the wrapper of either
  kind returns \<open>pm_ret\<close> at once: the attach is its only call, the driver's probe is
  not invoked, and the device keeps its \<open>probed\<close> flag, its completion and its
  properties (the peripheral wrapper has installed the driver's \<^verbatim>\<open>ops\<close> before the
  attach).
\<close>

theorem probe_attach_error:
  assumes "sdw_get_device_id (dev w) drv = Inr (Some (i, entry))"
    and "pm_ret \<noteq> 0"
  shows "sdw_drv_probe pm_ret drv w =
           Inr (pm_ret, \<lparr>dev = (dev w)\<lparr>sdw_slave.ops := sdw_driver.ops drv\<rparr>,
                         pm_attached = pm_attached w,
                         trace = trace w @ [PmAttach]\<rparr>) \<and>
         sdw_master_drv_probe pm_ret mdrv mw =
           Inr (pm_ret, \<lparr>dev = dev mw, pm_attached = pm_attached mw,
                         trace = trace mw @ [PmAttach]\<rparr>)"
  using assms
  by (simp add: sdw_drv_probe_def sdw_master_drv_probe_def dev_pm_domain_attach_def)

theorem probe_attach_error_witness:
  "sdw_get_device_id (dev (ex_world ex_slave)) (ex_drv 0 0) = Inr (Some (0, ex_table ! 0)) \<and>
   (- 6 :: int) \<noteq> 0 \<and>
   sdw_drv_probe (- 6) (ex_drv 0 0) (ex_world ex_slave) =
     Inr (- 6, \<lparr>dev = ex_slave, pm_attached = False, trace = [PmAttach]\<rparr>) \<and>
   sdw_master_drv_probe (- 6) (ex_mdrv 0 0) (ex_world ex_md) =
     Inr (- 6, \<lparr>dev = ex_md, pm_attached = False, trace = [PmAttach]\<rparr>)"
proof -
  have h1: "sdw_get_device_id (dev (ex_world ex_slave)) (ex_drv 0 0) =
              Inr (Some (0, ex_table ! 0))"
    by (simp add: sdw_get_device_id_def ex_world_def ex_drv_def ex_table_def ex_slave_def
        sdw_get_device_id_loop.simps)
  have h2: "(- 6 :: int) \<noteq> 0" by simp
  show ?thesis
    using h1 probe_attach_error [OF h1 h2, of "ex_mdrv 0 0" "ex_world ex_md"]
    by (simp add: ex_world_def ex_slave_def ex_drv_def)
qed

text \<open>
  C6. After a successful peripheral probe the timeout of the device is 300 if it was
  zero when the driver's callbacks returned, and unchanged otherwise; the timeout of the
  bus is the maximum of its previous value and the timeout of the device. A device
  with timeout 0 on a bus at 150 ends with 300 and 300.
\<close>

theorem probe_clk_stop_timeout:
  assumes "sdw_get_device_id (dev w) drv = Inr (Some (i, entry))"
    and "sdw_driver.probe drv = Some p"
    and "p ((dev w)\<lparr>sdw_slave.ops := sdw_driver.ops drv\<rparr>) entry = (0, slave')"
    and "w4 = slave_read_prop
                \<lparr>dev = slave', pm_attached = True, trace = trace w @ [PmAttach, DrvProbe]\<rparr>"
  shows "\<exists>w'. sdw_drv_probe 0 drv w = Inr (0, w') \<and>
           sdw_slave_prop.clk_stop_timeout (slave_prop (dev w')) =
             (if sdw_slave_prop.clk_stop_timeout (slave_prop (dev w4)) = 0 then 300
              else sdw_slave_prop.clk_stop_timeout (slave_prop (dev w4))) \<and>
           sdw_bus.clk_stop_timeout (sdw_slave.bus (dev w')) =
             max (sdw_bus.clk_stop_timeout (sdw_slave.bus slave'))
                 (sdw_slave_prop.clk_stop_timeout (slave_prop (dev w'))) \<and>
           (sdw_slave_prop.clk_stop_timeout (slave_prop (dev w4)) = 0 \<and>
            sdw_bus.clk_stop_timeout (sdw_slave.bus slave') = 150 \<longrightarrow>
              sdw_slave_prop.clk_stop_timeout (slave_prop (dev w')) = 300 \<and>
              sdw_bus.clk_stop_timeout (sdw_slave.bus (dev w')) = 300)"
proof -
  have b: "sdw_slave.bus (dev w4) = sdw_slave.bus slave'"
    using slave_read_prop_frame
      [of "\<lparr>dev = slave', pm_attached = True, trace = trace w @ [PmAttach, DrvProbe]\<rparr>"]
    by (simp add: assms(4))
  have m: "max (150 :: u32) 300 = 300" by simp
  show ?thesis
    using b m by (simp add: sdw_drv_probe_success [OF assms refl])
qed


theorem probe_clk_stop_timeout_witness:
  "sdw_get_device_id (dev (ex_world ex_slave)) (ex_drv 0 0) = Inr (Some (0, ex_table ! 0)) \<and>
   sdw_slave_prop.clk_stop_timeout (slave_prop ex_slave) = 0 \<and>
   sdw_bus.clk_stop_timeout (sdw_slave.bus ex_slave) = 150 \<and>
   (\<exists>w'. sdw_drv_probe 0 (ex_drv 0 0) (ex_world ex_slave) = Inr (0, w') \<and>
      sdw_slave_prop.clk_stop_timeout (slave_prop (dev w')) = 300 \<and>
      sdw_bus.clk_stop_timeout (sdw_slave.bus (dev w')) = 300)"
proof -
  have h1: "sdw_get_device_id (dev (ex_world ex_slave)) (ex_drv 0 0) =
              Inr (Some (0, ex_table ! 0))"
    by (simp add: sdw_get_device_id_def ex_world_def ex_drv_def ex_table_def ex_slave_def
        sdw_get_device_id_loop.simps)
  have h2: "sdw_driver.probe (ex_drv 0 0) = Some (\<lambda>slave entry. (0, slave))"
    by (simp add: ex_drv_def)
  have h3: "(\<lambda>slave entry. (0 :: int, slave))
              ((dev (ex_world ex_slave))\<lparr>sdw_slave.ops := sdw_driver.ops (ex_drv 0 0)\<rparr>)
              (ex_table ! 0) = (0, ex_slave)"
    by (simp add: ex_world_def ex_drv_def ex_slave_def)
  show ?thesis
    using h1 probe_clk_stop_timeout [OF h1 h2 h3 refl]
    by (simp add: slave_read_prop_def ex_world_def ex_slave_def) blast
qed

subsection \<open>Remove\<close>

text \<open>
  C7. Both remove wrappers end with the detach of the power domain, whatever the
  driver's callback returned. With a \<^verbatim>\<open>remove\<close> callback the wrapper calls it, then
  detaches, and returns the callback's value; without one it only detaches and
  returns 0.
\<close>

theorem remove_detaches:
  "\<not> pm_attached (snd (sdw_drv_remove drv w)) \<and>
   last (trace (snd (sdw_drv_remove drv w))) = PmDetach \<and>
   (\<forall>f. sdw_driver.remove drv = Some f \<longrightarrow>
      sdw_drv_remove drv w =
        (fst (f (dev w)),
         \<lparr>dev = snd (f (dev w)), pm_attached = False,
           trace = trace w @ [DrvRemove, PmDetach]\<rparr>)) \<and>
   (sdw_driver.remove drv = None \<longrightarrow>
      sdw_drv_remove drv w =
        (0, \<lparr>dev = dev w, pm_attached = False, trace = trace w @ [PmDetach]\<rparr>)) \<and>
   \<not> pm_attached (snd (sdw_master_drv_remove mdrv mw)) \<and>
   last (trace (snd (sdw_master_drv_remove mdrv mw))) = PmDetach \<and>
   (\<forall>f. sdw_master_driver.remove mdrv = Some f \<longrightarrow>
      sdw_master_drv_remove mdrv mw =
        (fst (f (dev mw)),
         \<lparr>dev = snd (f (dev mw)), pm_attached = False,
           trace = trace mw @ [DrvRemove, PmDetach]\<rparr>)) \<and>
   (sdw_master_driver.remove mdrv = None \<longrightarrow>
      sdw_master_drv_remove mdrv mw =
        (0, \<lparr>dev = dev mw, pm_attached = False, trace = trace mw @ [PmDetach]\<rparr>))"
  by (cases w, cases mw)
    (simp add: sdw_drv_remove_def sdw_master_drv_remove_def dev_pm_domain_detach_def
      split: option.splits prod.splits)

theorem remove_detaches_witness:
  "sdw_driver.remove (ex_drv 0 (- 5)) = Some (\<lambda>slave. (- 5, slave)) \<and>
   sdw_drv_remove (ex_drv 0 (- 5)) \<lparr>dev = ex_slave, pm_attached = True, trace = []\<rparr> =
     (- 5, \<lparr>dev = ex_slave, pm_attached = False, trace = [DrvRemove, PmDetach]\<rparr>) \<and>
   sdw_master_driver.remove ((ex_mdrv 0 0)\<lparr>sdw_master_driver.remove := None\<rparr>) = None \<and>
   sdw_master_drv_remove ((ex_mdrv 0 0)\<lparr>sdw_master_driver.remove := None\<rparr>)
       \<lparr>dev = ex_md, pm_attached = True, trace = []\<rparr> =
     (0, \<lparr>dev = ex_md, pm_attached = False, trace = [PmDetach]\<rparr>)"
  using remove_detaches [of "ex_drv 0 (- 5)" "\<lparr>dev = ex_slave, pm_attached = True, trace = []\<rparr>"
      "(ex_mdrv 0 0)\<lparr>sdw_master_driver.remove := None\<rparr>"
      "\<lparr>dev = ex_md, pm_attached = True, trace = []\<rparr>"]
  by (simp add: ex_drv_def)

subsection \<open>Registration\<close>

text \<open>
  C8. Registering a driver of either kind that has no \<^verbatim>\<open>probe\<close> returns
  \<^verbatim>\<open>-EINVAL\<close>; \<^verbatim>\<open>driver_register\<close> is not called (the log of its calls is unchanged),
  and the driver record is changed only in its \<^verbatim>\<open>bus\<close> field.
\<close>

theorem register_without_probe:
  assumes "sdw_driver.probe drv = None"
    and "sdw_master_driver.probe mdrv = None"
  shows "sdw_register_driver reg_ret drv own calls =
           (- EINVAL,
            drv\<lparr>sdw_driver.driver :=
                  (sdw_driver.driver drv)\<lparr>device_driver.bus := Some Sdw_bus_type\<rparr>\<rparr>,
            calls) \<and>
         sdw_register_master_driver reg_ret mdrv own calls =
           (- EINVAL,
            mdrv\<lparr>sdw_master_driver.driver :=
                   (sdw_master_driver.driver mdrv)\<lparr>device_driver.bus := Some Sdw_bus_type\<rparr>\<rparr>,
            calls)"
  using assms by (simp add: sdw_register_driver_def sdw_register_master_driver_def)

theorem register_without_probe_witness:
  "sdw_driver.probe ((ex_drv 0 0)\<lparr>sdw_driver.probe := None\<rparr>) = None \<and>
   fst (sdw_register_driver 0 ((ex_drv 0 0)\<lparr>sdw_driver.probe := None\<rparr>) None []) = - 22 \<and>
   snd (snd (sdw_register_driver 0 ((ex_drv 0 0)\<lparr>sdw_driver.probe := None\<rparr>) None [])) = [] \<and>
   fst (sdw_register_master_driver 0
          ((ex_mdrv 0 0)\<lparr>sdw_master_driver.probe := None\<rparr>) None []) = - 22 \<and>
   snd (snd (sdw_register_master_driver 0
          ((ex_mdrv 0 0)\<lparr>sdw_master_driver.probe := None\<rparr>) None [])) = []"
proof -
  have h1: "sdw_driver.probe ((ex_drv 0 0)\<lparr>sdw_driver.probe := None\<rparr>) = None" by simp
  have h2: "sdw_master_driver.probe ((ex_mdrv 0 0)\<lparr>sdw_master_driver.probe := None\<rparr>) = None"
    by simp
  show ?thesis
    using register_without_probe [OF h1 h2, of 0 None "[]"] by (simp add: EINVAL_def)
qed

subsection \<open>Matching a controller\<close>

text \<open>
  \<open>strncmp\<close> returns 0 exactly when the two C strings agree on their first \<open>n\<close>
  characters.
\<close>

lemma strncmp_c_str:
  "strncmp cs ct n = 0 \<longleftrightarrow> take n (c_str cs) = take n (c_str ct)"
proof (induction n arbitrary: cs ct)
  case 0
  then show ?case by simp
next
  case (Suc n)
  show ?case
  proof (cases cs)
    case Nil
    then show ?thesis
      by (cases ct) (auto simp: c_str_def Let_def)
  next
    case csC: (Cons x xs)
    show ?thesis
    proof (cases ct)
      case Nil
      with csC show ?thesis by (auto simp: c_str_def Let_def)
    next
      case (Cons y ys)
      with csC Suc [of xs ys] show ?thesis
        by (auto simp: c_str_def Let_def)
    qed
  qed
qed

text \<open>
  C9. A controller device matches a controller driver if and only if the name of the
  device is a prefix of the name of the driver: the first \<open>strlen\<close> characters of the
  driver's name, \<open>strlen\<close> being the length of the device's name, are the device's
  name. The device \<^verbatim>\<open>link-0\<close> matches the driver \<^verbatim>\<open>link-0-ctrl\<close>.
\<close>

theorem sdw_bus_match_master:
  "sdw_bus_match (Master md) (MasterDrv mdrv) =
     Inr (if take (length (c_str (master_name md)))
                  (c_str (device_driver.name (sdw_master_driver.driver mdrv))) =
             c_str (master_name md)
          then 1 else 0) \<and>
   sdw_bus_match (Master ex_md) (MasterDrv (ex_mdrv 0 0)) = Inr 1"
proof -
  have "strlen s = length (c_str s)" for s
    by (simp add: strlen_def c_str_def)
  then have "sdw_bus_match (Master m) (MasterDrv d) =
     Inr (if take (length (c_str (master_name m)))
                  (c_str (device_driver.name (sdw_master_driver.driver d))) =
             c_str (master_name m)
          then 1 else 0)" for m d
    by (auto simp: strncmp_c_str)
  note g = this
  show ?thesis
    apply (rule conjI)
     apply (rule g)
    apply (subst g)
    apply (simp add: ex_md_def ex_mdrv_def ex_ddrv_def c_str_def)
    done
qed

subsection \<open>Matching without identity table\<close>

text \<open>
  C10. A driver without identity table (a NULL \<^verbatim>\<open>id_table\<close>) matches no peripheral:
  the lookup returns NULL without entering the loop, the only place where an entry is
  read, and the match callback returns 0.
\<close>

theorem sdw_bus_match_null_table:
  assumes "id_table drv = None"
  shows "sdw_get_device_id slave drv = Inr None \<and>
         sdw_bus_match (Slave slave) (SlaveDrv drv) = Inr 0"
  using assms by (simp add: sdw_get_device_id_def)

theorem sdw_bus_match_null_table_witness:
  "id_table ((ex_drv 0 0)\<lparr>id_table := None\<rparr>) = None \<and>
   sdw_get_device_id ex_slave ((ex_drv 0 0)\<lparr>id_table := None\<rparr>) = Inr None \<and>
   sdw_bus_match (Slave ex_slave) (SlaveDrv ((ex_drv 0 0)\<lparr>id_table := None\<rparr>)) = Inr 0"
proof -
  have h: "id_table ((ex_drv 0 0)\<lparr>id_table := None\<rparr>) = None"
    by simp
  show ?thesis
    using h sdw_bus_match_null_table [OF h, of ex_slave] by simp
qed

end
